theory Spec2Isabelle
  imports Main "HOL-Library.Char_ord" "HOL-Library.List_Lexorder"
begin

section \<open>The XSS defender of chengyayu/xss, embedded in HOL\<close>

text \<open>
  The Go package sanitizes request and response bodies for four encodings (JSON,
  form-urlencoded, multipart, the query string of a GET). A Go \<open>string\<close> and a
  \<open>bytes.Buffer\<close> are byte sequences: both are \<open>string\<close> (a \<open>char list\<close>) here.
  A write to a buffer appends; the loops of the source are recursive functions that
  return the bytes the loop appends.
\<close>

subsection \<open>Values, errors and the library the package calls\<close>

text \<open>
  What \<open>json.Decoder\<close> with \<open>UseNumber\<close> stores in an \<open>interface{}\<close>: nil, bool,
  \<open>json.Number\<close> (the decimal text), string, \<open>[]interface{}\<close> and
  \<open>map[string]interface{}\<close>. A Go map is ranged over in an order the runtime picks;
  the association list of \<open>JObject\<close> lists the entries in that order. \<open>float64\<close>
  never comes out of a decoder that uses \<open>UseNumber\<close>, so that case of
  \<open>buildJsonApplyPolicy\<close> has no constructor here.
\<close>

datatype json =
    JNull
  | JBool bool
  | JNumber string
  | JString string
  | JArray "json list"
  | JObject "(string \<times> json) list"

text \<open>
  The errors the package returns, and the run-time panics its code can raise
  (a failed type assertion, an index out of range, a slice bound out of range).
\<close>

datatype error =
    ErrNotJson
  | ErrUnknownContentType
  | ErrRecreatingMultipart
  | ErrParseQuery
  | ErrRead
  | ErrXSSFilter
  | PanicTypeAssertion
  | PanicIndexOutOfRange
  | PanicSliceBounds

text \<open>A \<open>*bluemonday.Policy\<close> is used through its \<open>Sanitize\<close> method only.\<close>

type_synonym sanitizer = "string \<Rightarrow> string"

text \<open>\<open>url.Values\<close>, \<open>map[string][]string\<close>: the entries in the order a range meets them.\<close>

type_synonym Values = "(string \<times> string list) list"

text \<open>
  The functions of other packages that the source calls are parameters of the model:
  \<^item> \<open>StrictPolicy_Sanitize\<close>: \<open>bluemonday.StrictPolicy().Sanitize\<close>;
  \<^item> \<open>strconv_Quote\<close>: what \<open>fmt.Sprintf("%q", s)\<close> gives for a string \<open>s\<close>;
  \<^item> \<open>fmt_q_other\<close>: what \<open>fmt.Sprintf("%q", v)\<close> gives for a \<open>v\<close> that is neither a
    string nor a \<open>json.Number\<close>;
  \<^item> \<open>url_QueryEscape\<close>: \<open>url.QueryEscape\<close>;
  \<^item> \<open>url_ParseQuery\<close>: \<open>url.ParseQuery\<close>, which returns the values it could parse
    together with the first error, if any;
  \<^item> \<open>json_Decode\<close>: \<open>json.NewDecoder(r).Decode\<close> after \<open>UseNumber\<close>, \<open>None\<close> when it
    returns an error.
\<close>

record lib =
  StrictPolicy_Sanitize :: sanitizer
  strconv_Quote :: "string \<Rightarrow> string"
  fmt_q_other :: "json \<Rightarrow> string"
  url_QueryEscape :: "string \<Rightarrow> string"
  url_ParseQuery :: "string \<Rightarrow> Values \<times> error option"
  json_Decode :: "string \<Rightarrow> json option"

definition DQ :: char where
  "DQ = CHR 0x22"


text \<open>
  \<open>bytes.Buffer.Truncate(n)\<close> keeps the first \<open>n\<close> bytes. It panics when \<open>n\<close> is negative
  or beyond the length; every call of the source is \<open>Truncate(Len() - 1)\<close> on a buffer
  that holds at least one byte, so that branch is never reached.
\<close>

definition Truncate :: "int \<Rightarrow> string \<Rightarrow> string" where
  "Truncate n buff = take (nat n) buff"

definition Len :: "string \<Rightarrow> int" where
  "Len buff = int (length buff)"

fun HasPrefix :: "string \<Rightarrow> string \<Rightarrow> bool" where
  "HasPrefix s [] = True"
| "HasPrefix [] (c # pre) = False"
| "HasPrefix (x # s) (c # pre) = (x = c \<and> HasPrefix s pre)"

text \<open>\<open>strings.Index\<close>: the offset of the first occurrence, -1 when there is none.\<close>

fun Index_from :: "int \<Rightarrow> string \<Rightarrow> string \<Rightarrow> int" where
  "Index_from i [] substr = (if substr = [] then i else -1)"
| "Index_from i (x # s) substr =
     (if HasPrefix (x # s) substr then i else Index_from (i + 1) s substr)"

definition strings_Index :: "string \<Rightarrow> string \<Rightarrow> int" where
  "strings_Index s substr = Index_from 0 s substr"

definition strings_Contains :: "string \<Rightarrow> string \<Rightarrow> bool" where
  "strings_Contains s substr = (strings_Index s substr \<ge> 0)"

subsection \<open>Defender and its options (option.go)\<close>

record Defender =
  skipFields :: "string list"
  policy :: sanitizer

type_synonym Option = "Defender \<Rightarrow> Defender"

definition SetSkipFields :: "string list \<Rightarrow> Option" where
  "SetSkipFields ss = (\<lambda>defender. defender\<lparr>skipFields := ss\<rparr>)"

definition SetPolicy :: "sanitizer \<Rightarrow> Option" where
  "SetPolicy pol = (\<lambda>defender. defender\<lparr>policy := pol\<rparr>)"

text \<open>The loop of \<open>NewDefender\<close>: each option is applied to the defender in turn.\<close>

fun apply_options :: "Defender \<Rightarrow> Option list \<Rightarrow> Defender" where
  "apply_options res [] = res"
| "apply_options res (option # options) = apply_options (option res) options"

definition NewDefender :: "sanitizer \<Rightarrow> Option list \<Rightarrow> Defender" where
  "NewDefender pol options = apply_options \<lparr>skipFields = [], policy = pol\<rparr> options"

definition DefaultDefender :: "lib \<Rightarrow> Option list \<Rightarrow> Defender" where
  "DefaultDefender L options =
     NewDefender (StrictPolicy_Sanitize L) (options @ [SetSkipFields [''password'']])"

text \<open>
  The inner loop \<open>for _, field := range p.skipFields\<close> of \<open>ConstructJson\<close> and
  \<open>HandleXFormEncoded\<close>: it sets \<open>fndFld\<close> and breaks at the first field equal to the key.
\<close>

fun fndFld :: "string list \<Rightarrow> string \<Rightarrow> bool" where
  "fndFld [] k = False"
| "fndFld (field # rest) k = (if k = field then True else fndFld rest k)"

subsection \<open>The JSON codec\<close>

text \<open>\<open>fmt.Sprintf("%v", v)\<close> for a bool.\<close>

definition Sprintf_v_bool :: "bool \<Rightarrow> string" where
  "Sprintf_v_bool b = (if b then ''true'' else ''false'')"

text \<open>
  \<open>fmt.Sprintf("%q", v)\<close> for the value of a skipped field: a string is quoted, a
  \<open>json.Number\<close> is a \<open>Stringer\<close> and its text is quoted, anything else is formatted
  by the library.
\<close>

fun Sprintf_q :: "lib \<Rightarrow> json \<Rightarrow> string" where
  "Sprintf_q L (JString s) = strconv_Quote L s"
| "Sprintf_q L (JNumber n) = strconv_Quote L n"
| "Sprintf_q L v = fmt_q_other L v"

text \<open>
  \<open>buildJsonApplyPolicy\<close>, \<open>unravelSlice\<close> and \<open>ConstructJson\<close> call each other.
  \<open>unravelSlice_loop\<close> and \<open>ConstructJson_loop\<close> are their \<open>for ... range\<close> loops.
  The type switch of \<open>unravelSlice\<close> has two cases and no default: an item of any
  other type writes nothing.
\<close>

function (sequential)
  buildJsonApplyPolicy :: "lib \<Rightarrow> Defender \<Rightarrow> json \<Rightarrow> sanitizer \<Rightarrow> string" and
  unravelSlice :: "lib \<Rightarrow> Defender \<Rightarrow> json list \<Rightarrow> sanitizer \<Rightarrow> string" and
  unravelSlice_loop :: "lib \<Rightarrow> Defender \<Rightarrow> json list \<Rightarrow> sanitizer \<Rightarrow> string" and
  ConstructJson :: "lib \<Rightarrow> Defender \<Rightarrow> (string \<times> json) list \<Rightarrow> string" and
  ConstructJson_loop :: "lib \<Rightarrow> Defender \<Rightarrow> (string \<times> json) list \<Rightarrow> string"
where
  "buildJsonApplyPolicy L p (JObject v) pol = ConstructJson L p v @ '',''"
| "buildJsonApplyPolicy L p (JArray v) pol = unravelSlice L p v pol @ '',''"
| "buildJsonApplyPolicy L p (JNumber v) pol = pol v @ '',''"
| "buildJsonApplyPolicy L p (JString v) pol = strconv_Quote L (pol v) @ '',''"
| "buildJsonApplyPolicy L p JNull pol = ''null'' @ '',''"
| "buildJsonApplyPolicy L p (JBool v) pol = pol (Sprintf_v_bool v) @ '',''"
| "unravelSlice L p ss pol =
     (let buff = ''['' @ unravelSlice_loop L p ss pol
      in Truncate (Len buff - 1) buff @ '']'')"
| "unravelSlice_loop L p [] pol = []"
| "unravelSlice_loop L p (JObject tp # ss) pol =
     ConstructJson L p tp @ '','' @ unravelSlice_loop L p ss pol"
| "unravelSlice_loop L p (JString tp # ss) pol =
     strconv_Quote L (pol tp) @ '','' @ unravelSlice_loop L p ss pol"
| "unravelSlice_loop L p (item # ss) pol = unravelSlice_loop L p ss pol"
| "ConstructJson L p mp =
     (let buff = ''{'' @ ConstructJson_loop L p mp
      in Truncate (Len buff - 1) buff @ ''}'')"
| "ConstructJson_loop L p [] = []"
| "ConstructJson_loop L p ((k, v) # mp) =
     [DQ] @ k @ [DQ] @ '':'' @
     (if fndFld (skipFields p) k then Sprintf_q L v @ '',''
      else buildJsonApplyPolicy L p v (policy p)) @
     ConstructJson_loop L p mp"
  by pat_completeness auto
termination
  by (relation "measure (\<lambda>x. case x of
        Inl (Inl (L, p, v, pol)) \<Rightarrow> 2 * size v
      | Inl (Inr (L, p, ss, pol)) \<Rightarrow> 2 * size_list size ss + 1
      | Inr (Inl (L, p, ss, pol)) \<Rightarrow> 2 * size_list size ss
      | Inr (Inr (Inl (L, p, mp))) \<Rightarrow> 2 * size_list (size_prod (\<lambda>k. 0) size) mp + 1
      | Inr (Inr (Inr (L, p, mp))) \<Rightarrow> 2 * size_list (size_prod (\<lambda>k. 0) size) mp)")
    auto

text \<open>\<open>decodeJson\<close>: any error of the decoder becomes \<open>errNotJson\<close>.\<close>

definition decodeJson :: "lib \<Rightarrow> string \<Rightarrow> error + json" where
  "decodeJson L content =
     (case json_Decode L content of None \<Rightarrow> Inl ErrNotJson | Some jsonBod \<Rightarrow> Inr jsonBod)"

text \<open>
  The loop of \<open>jsonToStringMap\<close> over a top-level array: \<open>n.(map[string]interface{})\<close>
  is a type assertion without the comma-ok form and panics at the first element that is
  not an object.
\<close>

fun jsonToStringMap_loop :: "lib \<Rightarrow> Defender \<Rightarrow> json list \<Rightarrow> error + string" where
  "jsonToStringMap_loop L p [] = Inr []"
| "jsonToStringMap_loop L p (JObject xmj # jbt) =
     (case jsonToStringMap_loop L p jbt of
        Inl e \<Rightarrow> Inl e
      | Inr rest \<Rightarrow> Inr (ConstructJson L p xmj @ '','' @ rest))"
| "jsonToStringMap_loop L p (n # jbt) = Inl PanicTypeAssertion"

fun jsonToStringMap :: "lib \<Rightarrow> Defender \<Rightarrow> json \<Rightarrow> error + string" where
  "jsonToStringMap L p (JObject xmj) = Inr (ConstructJson L p xmj)"
| "jsonToStringMap L p (JArray jbt) =
     (case jsonToStringMap_loop L p jbt of
        Inl e \<Rightarrow> Inl e
      | Inr written \<Rightarrow>
          (let multiRec = ''['' @ written
           in Inr (Truncate (Len multiRec - 1) multiRec @ '']'')))"
| "jsonToStringMap L p jsonBod = Inl ErrUnknownContentType"

text \<open>
  \<open>HandleJson\<close> on the bytes of the request body: the error, or the bytes of the body
  that replaces it. \<open>BuildNewBody\<close> (filter_xss.go) does the same on the response
  buffer.
\<close>

definition HandleJson :: "lib \<Rightarrow> Defender \<Rightarrow> string \<Rightarrow> error + string" where
  "HandleJson L p body =
     (case decodeJson L body of
        Inl err \<Rightarrow> Inl err
      | Inr jsonBod \<Rightarrow> jsonToStringMap L p jsonBod)"

definition BuildNewBody :: "lib \<Rightarrow> Defender \<Rightarrow> string \<Rightarrow> error + string" where
  "BuildNewBody L p body =
     (case decodeJson L body of
        Inl err \<Rightarrow> Inl err
      | Inr jsonBod \<Rightarrow> jsonToStringMap L p jsonBod)"

subsection \<open>The form codec\<close>

text \<open>
  The loop \<open>for k, v := range m\<close> of \<open>HandleXFormEncoded\<close>. \<open>v[0]\<close> panics on an empty
  slice. The key is written as it is, the value escaped.
\<close>

fun HandleXFormEncoded_loop :: "lib \<Rightarrow> Defender \<Rightarrow> Values \<Rightarrow> error + string" where
  "HandleXFormEncoded_loop L p [] = Inr []"
| "HandleXFormEncoded_loop L p ((k, []) # m) = Inl PanicIndexOutOfRange"
| "HandleXFormEncoded_loop L p ((k, v0 # v) # m) =
     (case HandleXFormEncoded_loop L p m of
        Inl e \<Rightarrow> Inl e
      | Inr rest \<Rightarrow>
          Inr (k @ ''='' @
               (if fndFld (skipFields p) k then url_QueryEscape L v0
                else url_QueryEscape L (policy p v0)) @
               ''&'' @ rest))"

text \<open>
  \<open>HandleXFormEncoded\<close> on the request body (\<open>None\<close> is the nil body): the error, or
  the body the request has afterwards. The body is given as the bytes \<open>buf.ReadFrom\<close>
  read; a failing read of the request stream is outside the model.
\<close>

definition HandleXFormEncoded :: "lib \<Rightarrow> Defender \<Rightarrow> string option \<Rightarrow> error + string option" where
  "HandleXFormEncoded L p body =
     (case body of
        None \<Rightarrow> Inr None
      | Some buf \<Rightarrow>
          (case url_ParseQuery L buf of
             (m, Some uerr) \<Rightarrow> Inl uerr
           | (m, None) \<Rightarrow>
               (case HandleXFormEncoded_loop L p m of
                  Inl e \<Rightarrow> Inl e
                | Inr bq \<Rightarrow>
                    if Len bq > 1 then Inr (Some (Truncate (Len bq - 1) bq))
                    else Inr (Some buf))))"

subsection \<open>The multipart codec\<close>





subsection \<open>The query rewriter\<close>

text \<open>\<open>url.Values.Del\<close> and \<open>url.Values.Set\<close>: \<open>Set\<close> replaces the values of the key by one value.\<close>

definition Values_Del :: "string \<Rightarrow> Values \<Rightarrow> Values" where
  "Values_Del key v = filter (\<lambda>(k, vs). k \<noteq> key) v"

fun Values_Set :: "string \<Rightarrow> string \<Rightarrow> Values \<Rightarrow> Values" where
  "Values_Set key val [] = [(key, [val])]"
| "Values_Set key val ((k, vs) # v) =
     (if k = key then (k, [val]) # v else (k, vs) # Values_Set key val v)"

text \<open>
  \<open>url.Values.Encode\<close>: the keys sorted, every value of a key written as
  \<open>key=value\<close>, both escaped, with \<open>&\<close> before each pair but the first.
\<close>

fun Encode_values :: "lib \<Rightarrow> string \<Rightarrow> string list \<Rightarrow> string \<Rightarrow> string" where
  "Encode_values L keyEscaped [] buf = buf"
| "Encode_values L keyEscaped (v # vs) buf =
     Encode_values L keyEscaped vs
       ((if Len buf > 0 then buf @ ''&'' else buf) @ keyEscaped @ ''='' @ url_QueryEscape L v)"

fun Encode_keys :: "lib \<Rightarrow> Values \<Rightarrow> string list \<Rightarrow> string \<Rightarrow> string" where
  "Encode_keys L v [] buf = buf"
| "Encode_keys L v (k # keys) buf =
     Encode_keys L v keys
       (Encode_values L (url_QueryEscape L k) (case map_of v k of None \<Rightarrow> [] | Some vs \<Rightarrow> vs) buf)"

definition Values_Encode :: "lib \<Rightarrow> Values \<Rightarrow> string" where
  "Values_Encode L v = Encode_keys L v (sort (map fst v)) []"

text \<open>The map \<open>fieldToSkip\<close>: a key that was never stored reads as \<open>false\<close>.\<close>

fun fieldToSkip_build :: "string list \<Rightarrow> (string \<Rightarrow> bool) \<Rightarrow> (string \<Rightarrow> bool)" where
  "fieldToSkip_build [] fieldToSkip = fieldToSkip"
| "fieldToSkip_build (fts # rest) fieldToSkip = fieldToSkip_build rest (fieldToSkip(fts := True))"

text \<open>The inner loop \<open>for _, item := range items\<close>.\<close>

fun HandleGETRequest_items :: "sanitizer \<Rightarrow> string \<Rightarrow> string list \<Rightarrow> Values \<Rightarrow> Values" where
  "HandleGETRequest_items san key [] queryParams = queryParams"
| "HandleGETRequest_items san key (item # items) queryParams =
     HandleGETRequest_items san key items (Values_Set key (san item) queryParams)"

text \<open>
  The outer loop \<open>for key, items := range queryParams\<close>, over the entries the map had
  when the loop began. Each turn deletes and stores its own key only, so the other
  entries are met unchanged; the model visits every key once (Go leaves open whether an
  entry stored during a range is met again).
\<close>

fun HandleGETRequest_loop ::
  "Defender \<Rightarrow> (string \<Rightarrow> bool) \<Rightarrow> Values \<Rightarrow> Values \<Rightarrow> Values" where
  "HandleGETRequest_loop p fieldToSkip [] queryParams = queryParams"
| "HandleGETRequest_loop p fieldToSkip ((key, items) # entries) queryParams =
     (if fieldToSkip key then HandleGETRequest_loop p fieldToSkip entries queryParams
      else HandleGETRequest_loop p fieldToSkip entries
             (HandleGETRequest_items (policy p) key items (Values_Del key queryParams)))"

text \<open>The parameters as \<open>HandleGETRequest\<close> leaves them, before they are encoded.\<close>

definition HandleGETRequest_params :: "lib \<Rightarrow> Defender \<Rightarrow> string \<Rightarrow> Values" where
  "HandleGETRequest_params L p rawQuery =
     (let queryParams = fst (url_ParseQuery L rawQuery);
          fieldToSkip = fieldToSkip_build (skipFields p) (\<lambda>k. False)
      in HandleGETRequest_loop p fieldToSkip queryParams queryParams)"

text \<open>
  \<open>HandleGETRequest\<close>: from the raw query of the request URL to the raw query it has
  afterwards. \<open>URL.Query()\<close> drops the error of \<open>ParseQuery\<close> and keeps the values.
\<close>

definition HandleGETRequest :: "lib \<Rightarrow> Defender \<Rightarrow> string \<Rightarrow> string" where
  "HandleGETRequest L p rawQuery = Values_Encode L (HandleGETRequest_params L p rawQuery)"

subsection \<open>The response filter (filter_xss.go)\<close>

text \<open>\<open>BodyWriter.Write\<close> appends to the captured body.\<close>

definition BodyWriter_Write :: "string \<Rightarrow> string \<Rightarrow> string" where
  "BodyWriter_Write body b = body @ b"

text \<open>
  What the filter does to the real writer after the handler ran: it writes a string, or
  aborts with a status and an error and writes nothing.
\<close>

datatype response = WriteString string | AbortWithError nat error

text \<open>
  \<open>FilterXSS\<close>: \<open>handlerWrites\<close> are the byte slices the handler passes to \<open>Write\<close>,
  \<open>respContentTp\<close> the \<open>content-type\<close> header after the handler ran. filter_xss.go
  holds two texts of this function; this is the second, which reads the content type,
  aborts with status 500 and comes with the declaration of \<open>errNotJson\<close> that
  \<open>decodeJson\<close> uses. The first text is an earlier one and declares no \<open>errNotJson\<close>.
\<close>

definition FilterXSS :: "lib \<Rightarrow> Defender \<Rightarrow> string \<Rightarrow> string list \<Rightarrow> response" where
  "FilterXSS L p respContentTp handlerWrites =
     (let oldBody = foldl BodyWriter_Write [] handlerWrites
      in if \<not> strings_Contains respContentTp ''application/json'' then WriteString oldBody
         else
           (case BuildNewBody L p oldBody of
              Inl err \<Rightarrow> AbortWithError 500 ErrXSSFilter
            | Inr newBody \<Rightarrow> WriteString newBody))"

subsection \<open>The field policy of the specification\<close>

text \<open>
  The definitions of this subsection follow the words of the specification, not a
  function of the source; the theorems compare the codecs of the source with them.

  The FieldPolicy of the specification: "the skip-field set and the sanitize
  capability; decides per-key whether to sanitize or pass through verbatim", with a
  case-sensitive exact match of the key.
\<close>

definition FieldPolicy :: "string list \<Rightarrow> sanitizer \<Rightarrow> string \<Rightarrow> string \<Rightarrow> string" where
  "FieldPolicy skip sanitize key text = (if key \<in> set skip then text else sanitize text)"

text \<open>The specification's "join with \<open>&\<close>": no separator after the last pair.\<close>

fun join_amp :: "string list \<Rightarrow> string" where
  "join_amp [] = []"
| "join_amp [x] = x"
| "join_amp (x # y # xs) = x @ ''&'' @ join_amp (y # xs)"

text \<open>The pair the form codec writes for one key: the key, \<open>=\<close>, its first value escaped.\<close>

definition form_pair :: "lib \<Rightarrow> Defender \<Rightarrow> string \<times> string list \<Rightarrow> string" where
  "form_pair L p kv =
     fst kv @ ''='' @
     url_QueryEscape L (FieldPolicy (skipFields p) (policy p) (fst kv) (hd (snd kv)))"





text \<open>A decoded top-level value that is neither an object nor an array.\<close>

fun top_level_scalar :: "json \<Rightarrow> bool" where
  "top_level_scalar (JObject mp) = False"
| "top_level_scalar (JArray ss) = False"
| "top_level_scalar v = True"

subsection \<open>A concrete library for the examples\<close>

text \<open>
  The closed examples below need the library functions at concrete arguments.
  \<open>sample_Sanitize\<close> deletes every tag \<open><...>\<close>, as the strict policy does on the
  texts used here. \<open>sample_Quote\<close> escapes the double quote and the backslash, which is
  \<open>strconv.Quote\<close> on printable text. \<open>sample_QueryEscape\<close> is \<open>url.QueryEscape\<close>:
  letters, digits and \<open>-_.~\<close> stay, a space becomes \<open>+\<close>, any other byte \<open>%XX\<close>.
  \<open>sample_ParseQuery\<close> and \<open>sample_Decode\<close> are tables of what \<open>url.ParseQuery\<close> and
  the JSON decoder return for the texts of the examples; a text outside the table is an
  error.
\<close>

fun sample_Sanitize_from :: "bool \<Rightarrow> string \<Rightarrow> string" where
  "sample_Sanitize_from inTag [] = []"
| "sample_Sanitize_from inTag (c # s) =
     (if inTag then sample_Sanitize_from (c \<noteq> CHR ''>'') s
      else if c = CHR ''<'' then sample_Sanitize_from True s
      else c # sample_Sanitize_from False s)"

definition sample_Sanitize :: sanitizer where
  "sample_Sanitize s = sample_Sanitize_from False s"

definition sample_Quote :: "string \<Rightarrow> string" where
  "sample_Quote s =
     [DQ] @ concat (map (\<lambda>c. if c = DQ \<or> c = CHR 0x5C then [CHR 0x5C, c] else [c]) s) @ [DQ]"

fun join_space :: "string list \<Rightarrow> string" where
  "join_space [] = []"
| "join_space [x] = x"
| "join_space (x # y # xs) = x @ '' '' @ join_space (y # xs)"

text \<open>\<open>%q\<close> on a value inside a slice or a map: \<open>fmt\<close> prints a map with its keys sorted.\<close>

fun sample_fmt_q_elem :: "json \<Rightarrow> string" where
  "sample_fmt_q_elem JNull = ''<nil>''"
| "sample_fmt_q_elem (JBool b) = ''%!q(bool='' @ Sprintf_v_bool b @ '')''"
| "sample_fmt_q_elem (JNumber n) = sample_Quote n"
| "sample_fmt_q_elem (JString s) = sample_Quote s"
| "sample_fmt_q_elem (JArray xs) = ''['' @ join_space (map sample_fmt_q_elem xs) @ '']''"
| "sample_fmt_q_elem (JObject m) =
     ''map['' @
     join_space (map (\<lambda>(k, v). sample_Quote k @ '':'' @ sample_fmt_q_elem v) (sort_key fst m)) @
     '']''"

definition sample_fmt_q_other :: "json \<Rightarrow> string" where
  "sample_fmt_q_other v = (if v = JNull then ''%!q(<nil>)'' else sample_fmt_q_elem v)"

definition upperhex :: string where
  "upperhex = ''0123456789ABCDEF''"

definition shouldEscape :: "char \<Rightarrow> bool" where
  "shouldEscape c =
     (let n = (of_char c :: nat)
      in \<not> ((97 \<le> n \<and> n \<le> 122) \<or> (65 \<le> n \<and> n \<le> 90) \<or> (48 \<le> n \<and> n \<le> 57) \<or>
             c = CHR ''-'' \<or> c = CHR ''_'' \<or> c = CHR ''.'' \<or> c = CHR ''~''))"

definition escape_byte :: "char \<Rightarrow> string" where
  "escape_byte c =
     (if c = CHR '' '' then ''+''
      else if shouldEscape c then
        [CHR ''%'', upperhex ! ((of_char c :: nat) div 16), upperhex ! ((of_char c :: nat) mod 16)]
      else [c])"

definition sample_QueryEscape :: "string \<Rightarrow> string" where
  "sample_QueryEscape s = concat (map escape_byte s)"

definition sample_queries :: "string \<rightharpoonup> Values" where
  "sample_queries =
     [[] \<mapsto> [],
      ''q=a&q=b'' \<mapsto> [(''q'', [''a'', ''b''])],
      ''q=%3Cb%3Ex%3C%2Fb%3E&id=5'' \<mapsto> [(''q'', [''<b>x</b>'']), (''id'', [''5''])],
      ''name=%3Cb%3Ex%3C%2Fb%3E&password=%3Cb%3Ey%3C%2Fb%3E'' \<mapsto>
        [(''name'', [''<b>x</b>'']), (''password'', [''<b>y</b>''])]]"

definition sample_ParseQuery :: "string \<Rightarrow> Values \<times> error option" where
  "sample_ParseQuery query =
     (case sample_queries query of
        Some v \<Rightarrow> (v, None)
      | None \<Rightarrow> ([], Some ErrParseQuery))"

definition sample_Decode :: "string \<rightharpoonup> json" where
  "sample_Decode = [''{}'' \<mapsto> JObject [], ''[]'' \<mapsto> JArray [], ''5'' \<mapsto> JNumber ''5'']"

definition sample_lib :: lib where
  "sample_lib =
     \<lparr>StrictPolicy_Sanitize = sample_Sanitize,
      strconv_Quote = sample_Quote,
      fmt_q_other = sample_fmt_q_other,
      url_QueryEscape = sample_QueryEscape,
      url_ParseQuery = sample_ParseQuery,
      json_Decode = sample_Decode\<rparr>"




section \<open>Properties\<close>

subsection \<open>Options\<close>

lemma apply_options_snoc:
  "apply_options res (options @ [option]) = option (apply_options res options)"
  by (induction options arbitrary: res) simp_all

text \<open>
  C10. Whatever options the caller passes to \<open>DefaultDefender\<close>, the skip fields of the
  defender it builds are exactly \<open>["password"]\<close>: the default option is applied last,
  and \<open>SetSkipFields\<close> replaces the slice, so skip fields set by the caller are lost.
\<close>

theorem DefaultDefender_skipFields:
  "skipFields (DefaultDefender L options) = [''password''] \<and>
   skipFields (SetSkipFields ss defender) = ss"
  by (simp add: DefaultDefender_def NewDefender_def apply_options_snoc SetSkipFields_def)

subsection \<open>Helper facts\<close>

lemma Truncate_Len: "Truncate (Len buff - 1) buff = butlast buff"
  by (simp add: Truncate_def Len_def butlast_conv_take nat_diff_distrib')

lemma fndFld_iff: "fndFld skip k = (k \<in> set skip)"
  by (induction skip) auto

lemma sample_Defender:
  "DefaultDefender sample_lib [] = \<lparr>skipFields = [''password''], policy = sample_Sanitize\<rparr>"
  by (simp add: DefaultDefender_def NewDefender_def SetSkipFields_def sample_lib_def)

lemma sample_escape_markup: "sample_QueryEscape ''<b>y</b>'' = ''%3Cb%3Ey%3C%2Fb%3E''"
  by (simp add: sample_QueryEscape_def escape_byte_def shouldEscape_def upperhex_def)

lemma sample_escape_x: "sample_QueryEscape ''x'' = ''x''"
  by (simp add: sample_QueryEscape_def escape_byte_def shouldEscape_def upperhex_def)

lemma sample_Sanitize_bx: "sample_Sanitize ''<b>x</b>'' = ''x''"
  by (simp add: sample_Sanitize_def)

subsection \<open>The response filter\<close>

lemma foldl_BodyWriter_Write:
  "foldl BodyWriter_Write body handlerWrites = body @ concat handlerWrites"
  by (induction handlerWrites arbitrary: body) (simp_all add: BodyWriter_Write_def)

text \<open>
  C9. A response whose content type does not contain \<open>application/json\<close> reaches the
  real writer as the very bytes the handler wrote, in the order it wrote them: the
  filter neither decodes nor rewrites the captured body.
\<close>

theorem FilterXSS_passes_non_json:
  "\<not> strings_Contains respContentTp ''application/json'' \<Longrightarrow>
   FilterXSS L p respContentTp handlerWrites = WriteString (concat handlerWrites)"
  by (simp add: FilterXSS_def foldl_BodyWriter_Write)

theorem FilterXSS_passes_non_json_witness:
  "\<not> strings_Contains ''text/plain'' ''application/json'' \<and>
   FilterXSS sample_lib (DefaultDefender sample_lib []) ''text/plain'' [''<b>hi'', ''</b>''] =
     WriteString ''<b>hi</b>''"
proof -
  have h: "\<not> strings_Contains ''text/plain'' ''application/json''"
    by (simp add: strings_Contains_def strings_Index_def)
  show ?thesis
    using h FilterXSS_passes_non_json
      [OF h, of sample_lib "DefaultDefender sample_lib []" "[''<b>hi'', ''</b>'']"]
    by simp
qed

subsection \<open>The JSON codec\<close>

text \<open>
  C3. The claim is that an empty object is encoded as \<open>{}\<close> and an empty array as
  \<open>[]\<close>. The code truncates the last byte of the buffer whether or not an entry was
  written, so for an empty object it removes the opening brace: the result is the one
  byte \<open>}\<close>, and \<open>]\<close> for an empty array, nested or at the top level.
\<close>

theorem empty_object_loses_brace:
  "ConstructJson L p [] = ''}'' \<and>
   unravelSlice L p [] pol = '']'' \<and>
   jsonToStringMap L p (JObject []) = Inr ''}'' \<and>
   jsonToStringMap L p (JArray []) = Inr '']''"
  by (simp add: Truncate_def Len_def)

text \<open>
  C4. The claim is that every element of an array is emitted. \<open>unravelSlice\<close> writes
  objects and strings only: numbers, booleans, null and nested arrays are dropped, and
  an array that holds none of the two kinds loses its opening bracket as well.
\<close>

theorem unravelSlice_drops_scalars:
  "unravelSlice L p [JNumber ''1'', JNumber ''2''] pol = '']'' \<and>
   unravelSlice L p [JString s, JNumber n, JBool b, JNull, JArray ss] pol =
     ''['' @ strconv_Quote L (pol s) @ '']'' \<and>
   ConstructJson L \<lparr>skipFields = [], policy = pol\<rparr>
     [(''a'', JArray [JNumber ''1'', JNumber ''2''])] =
     ''{'' @ [DQ] @ ''a'' @ [DQ] @ '':]}''"
  by (simp add: Truncate_Len butlast_append)

lemma jsonToStringMap_loop_error:
  "jsonToStringMap_loop L p jbt = Inl e \<Longrightarrow> e = PanicTypeAssertion"
  by (induction L p jbt rule: jsonToStringMap_loop.induct) (auto split: sum.splits)

lemma jsonToStringMap_error:
  "jsonToStringMap L p v = Inl e \<Longrightarrow>
     (e = ErrUnknownContentType \<and> top_level_scalar v) \<or>
     (e = PanicTypeAssertion \<and> \<not> top_level_scalar v)"
  by (cases v) (auto simp: Let_def split: sum.splits dest: jsonToStringMap_loop_error)

lemma jsonToStringMap_scalar:
  "top_level_scalar v \<Longrightarrow> jsonToStringMap L p v = Inl ErrUnknownContentType"
  by (cases v) simp_all

text \<open>
  C6, as the code has it. \<open>HandleJson\<close> returns \<open>errNotJson\<close> exactly when the decoder
  returns an error (malformed or truncated text). A body that decodes to a top-level
  value that is neither an object nor an array fails too, but with the other error,
  "Unknown Content Type Received", and that error is returned in no other case.
\<close>

theorem HandleJson_ErrNotJson_iff:
  "(HandleJson L p body = Inl ErrNotJson) = (json_Decode L body = None) \<and>
   (HandleJson L p body = Inl ErrUnknownContentType) =
     (\<exists>v. json_Decode L body = Some v \<and> top_level_scalar v)"
  by (auto simp: HandleJson_def decodeJson_def jsonToStringMap_scalar
        split: option.splits dest: jsonToStringMap_error)

text \<open>
  C6 as stated fails: the body \<open>5\<close> decodes to the number 5, a top-level scalar, and
  the error returned is not \<open>errNotJson\<close>.
\<close>

theorem top_level_scalar_is_not_ErrNotJson:
  "json_Decode sample_lib ''5'' = Some (JNumber ''5'') \<and>
   HandleJson sample_lib (DefaultDefender sample_lib []) ''5'' = Inl ErrUnknownContentType \<and>
   HandleJson sample_lib (DefaultDefender sample_lib []) ''5'' \<noteq> Inl ErrNotJson"
  by (simp add: HandleJson_def decodeJson_def sample_lib_def sample_Decode_def)

text \<open>
  C7. The claim is that sanitizing the output of a sanitization gives the same bytes.
  The body \<open>{}\<close> is rewritten to \<open>}\<close> (the defect of C3), which the decoder rejects:
  the second pass returns \<open>errNotJson\<close> instead of the same bytes.
\<close>

theorem empty_object_not_idempotent:
  "HandleJson sample_lib p ''{}'' = Inr ''}'' \<and>
   HandleJson sample_lib p ''}'' = Inl ErrNotJson"
  by (simp add: HandleJson_def decodeJson_def sample_lib_def sample_Decode_def
      Truncate_def Len_def)

subsection \<open>The form codec\<close>

lemma HandleXFormEncoded_loop_pairs:
  "list_all (\<lambda>kv. snd kv \<noteq> []) m \<Longrightarrow>
   HandleXFormEncoded_loop L p m = Inr (concat (map (\<lambda>kv. form_pair L p kv @ ''&'') m))"
proof (induction L p m rule: HandleXFormEncoded_loop.induct)
  case (3 L p k v0 v m)
  then show ?case
    by (simp add: form_pair_def FieldPolicy_def fndFld_iff)
qed simp_all

lemma butlast_concat_amp:
  "xs \<noteq> [] \<Longrightarrow> butlast (concat (map (\<lambda>x. f x @ ''&'') xs)) = join_amp (map f xs)"
proof (induction xs rule: induct_list012)
  case (3 x y zs)
  then show ?case by (simp add: butlast_append)
qed simp_all

lemma form_pairs_long:
  "m \<noteq> [] \<Longrightarrow> 1 < Len (concat (map (\<lambda>kv. form_pair L p kv @ ''&'') m))"
  by (cases m) (simp_all add: Len_def form_pair_def)

lemma HandleXFormEncoded_Some:
  assumes "url_ParseQuery L buf = (m, None)"
      and "list_all (\<lambda>kv. snd kv \<noteq> []) m"
  shows "HandleXFormEncoded L p (Some buf) =
           Inr (Some (if m = [] then buf else join_amp (map (form_pair L p) m)))"
proof (cases "m = []")
  case True
  with assms show ?thesis
    by (simp add: HandleXFormEncoded_def Len_def)
next
  case False
  with assms show ?thesis
    by (simp add: HandleXFormEncoded_def HandleXFormEncoded_loop_pairs form_pairs_long
        Truncate_Len butlast_concat_amp)
qed

lemma sample_parse_form:
  "url_ParseQuery sample_lib ''name=%3Cb%3Ex%3C%2Fb%3E&password=%3Cb%3Ey%3C%2Fb%3E'' =
     ([(''name'', [''<b>x</b>'']), (''password'', [''<b>y</b>''])], None)"
  by (simp add: sample_lib_def sample_ParseQuery_def sample_queries_def)

lemma sample_parse_empty: "url_ParseQuery sample_lib [] = ([], None)"
  by (simp add: sample_lib_def sample_ParseQuery_def sample_queries_def)

lemma sample_lib_QueryEscape: "url_QueryEscape sample_lib = sample_QueryEscape"
  by (simp add: sample_lib_def)

text \<open>
  C8. When the parsed form has no key, the body stays the original bytes; otherwise the
  new body is the pairs \<open>key=value\<close> joined with \<open>&\<close>, the last pair followed by
  nothing. (\<open>url.ParseQuery\<close> never stores a key with no value, which is the second
  assumption.)
\<close>

theorem HandleXFormEncoded_passthrough_or_join:
  assumes "url_ParseQuery L buf = (m, None)"
      and "list_all (\<lambda>kv. snd kv \<noteq> []) m"
  shows "HandleXFormEncoded L p (Some buf) =
           Inr (Some (if m = [] then buf else join_amp (map (form_pair L p) m)))"
  by (rule HandleXFormEncoded_Some [OF assms])

theorem HandleXFormEncoded_passthrough_or_join_witness:
  "url_ParseQuery sample_lib [] = ([], None) \<and>
   HandleXFormEncoded sample_lib (DefaultDefender sample_lib []) (Some []) = Inr (Some []) \<and>
   url_ParseQuery sample_lib ''name=%3Cb%3Ex%3C%2Fb%3E&password=%3Cb%3Ey%3C%2Fb%3E'' =
     ([(''name'', [''<b>x</b>'']), (''password'', [''<b>y</b>''])], None) \<and>
   HandleXFormEncoded sample_lib (DefaultDefender sample_lib [])
     (Some ''name=%3Cb%3Ex%3C%2Fb%3E&password=%3Cb%3Ey%3C%2Fb%3E'') =
     Inr (Some ''name=x&password=%3Cb%3Ey%3C%2Fb%3E'')"
  using HandleXFormEncoded_passthrough_or_join
      [OF sample_parse_empty, of "DefaultDefender sample_lib []"]
    HandleXFormEncoded_passthrough_or_join
      [OF sample_parse_form, of "DefaultDefender sample_lib []"]
  by (simp add: form_pair_def FieldPolicy_def sample_Defender sample_lib_QueryEscape
      sample_escape_markup sample_escape_x sample_Sanitize_bx sample_parse_form
      sample_parse_empty)

subsection \<open>The multipart codec\<close>








subsection \<open>The query rewriter\<close>







text \<open>
  C2. The claim is that a parameter with n values has n values after the rewriting.
  \<open>queryParams.Set\<close> replaces the values of the key at every turn of the inner loop, so
  only the last value is left: \<open>q=a&q=b\<close> becomes \<open>q=b\<close>.
\<close>

theorem query_keeps_last_value_only:
  "url_ParseQuery sample_lib ''q=a&q=b'' = ([(''q'', [''a'', ''b''])], None) \<and>
   HandleGETRequest_params sample_lib (DefaultDefender sample_lib []) ''q=a&q=b'' =
     [(''q'', [''b''])] \<and>
   HandleGETRequest sample_lib (DefaultDefender sample_lib []) ''q=a&q=b'' = ''q=b''"
  by (simp add: HandleGETRequest_def HandleGETRequest_params_def Values_Encode_def Values_Del_def
      sample_lib_def sample_ParseQuery_def sample_queries_def sample_Sanitize_def
      DefaultDefender_def NewDefender_def SetSkipFields_def Len_def
      sample_QueryEscape_def escape_byte_def shouldEscape_def upperhex_def)

subsection \<open>The field policy in the four codecs\<close>






end
